theory Spec2Isabelle
  imports Complex_Main
begin

section \<open>MCVecLib: 2x2 and 3x3 matrices over named coefficients\<close>

text \<open>
  A shallow embedding of the TypeScript namespaces \<open>Mat2\<close> (matrix2.ts) and \<open>Mat3\<close>
  (the matrix3 source that carries \<open>adjugate\<close>, \<open>inverse\<close> and \<open>buildTNB\<close>) and of
  \<open>Vec3.from\<close>.

  Numbers. A TypeScript \<open>number\<close> is modelled as a \<^typ>\<open>real\<close>: arithmetic is exact, and
  there is no rounding, no infinity and no NaN. Where the code produces NaN from values of
  this model, the model says so: scaling a matrix by something that is not a number has a
  result constructor of its own, and normalizing the zero vector is marked where it is
  defined. Which branch runs and which expression is evaluated do not depend on rounding;
  the value of a product does. For that, the 2x2 determinant, inverse and \<open>mul\<close> are
  given a second time, with every operator rounded to binary64 (section "Mat2 in
  binary64").

  Names. The interfaces \<open>Vector2\<close>, \<open>Vector3\<close>, \<open>Matrix2\<close> and \<open>Matrix3\<close> share their field
  names (\<open>x\<close>, \<open>y\<close>, \<open>ux\<close>, ...). A record field is a constant of the theory, so each
  field carries the size of its interface as a suffix: \<open>x2\<close>, \<open>y2\<close> for \<open>Vector2\<close>;
  \<open>x3\<close>, \<open>y3\<close>, \<open>z3\<close> for \<open>Vector3\<close>; \<open>ux2\<close>, ... for \<open>Matrix2\<close>; \<open>ux3\<close>, ... for
  \<open>Matrix3\<close>. Functions carry their namespace as a prefix: \<open>Mat2_determinant\<close> is
  \<open>Mat2.determinant\<close>.
\<close>

subsection \<open>Data model\<close>

record Vector2 =
  x2 :: real
  y2 :: real

record Vector3 =
  x3 :: real
  y3 :: real
  z3 :: real

record Matrix2 =
  ux2 :: real
  vx2 :: real
  uy2 :: real
  vy2 :: real

record Matrix3 =
  ux3 :: real
  vx3 :: real
  wx3 :: real
  uy3 :: real
  vy3 :: real
  wy3 :: real
  uz3 :: real
  vz3 :: real
  wz3 :: real

text \<open>
  The two \<open>throw new Error(...)\<close> sites: \<open>InvalidInput\<close> is
  "Invalid input values for vector construction." (\<open>from\<close>), \<open>NotInvertible\<close> is
  "Matrix is not invertible." (\<open>inverse\<close>). \<open>TypeError\<close> is the exception the language
  itself raises when the \<open>in\<close> operator is applied to something that is not an object.
\<close>

datatype error = InvalidInput | NotInvertible | TypeError

text \<open>
  Run-time values, for the parameters the code inspects dynamically (\<open>u: unknown\<close> of
  \<open>from\<close>, the union-typed \<open>t\<close> of \<open>mul\<close>): a number, an array of numbers, an object
  given by its named numeric fields, \<open>null\<close> or \<open>undefined\<close>.
\<close>

datatype jsval =
    JNum real
  | JArr "real list"
  | JObj "string \<rightharpoonup> real"
  | JNull
  | JUndefined

text \<open>An optional parameter (\<open>y?: number\<close>): left out or \<open>undefined\<close>, \<open>null\<close>, or given.\<close>

datatype 'a optional = Undefined | Null | Given 'a

text \<open>
  \<open>typeof v === "object"\<close>, which holds of arrays and of \<open>null\<close> too;
  \<open>Array.isArray(v)\<close>; and the elements of an array.
\<close>

fun typeof_object :: "jsval \<Rightarrow> bool" where
  "typeof_object (JNum r) = False"
| "typeof_object (JArr a) = True"
| "typeof_object (JObj f) = True"
| "typeof_object JNull = True"
| "typeof_object JUndefined = False"

fun isArray :: "jsval \<Rightarrow> bool" where
  "isArray (JArr a) = True"
| "isArray v = False"

fun elems :: "jsval \<Rightarrow> real list" where
  "elems (JArr a) = a"
| "elems v = []"

text \<open>
  \<open>'k' in v\<close> for the field names the code asks for (none of them is an index or
  \<open>length\<close>, so an array has none of them). On anything that is not an object, \<open>null\<close>
  included, the operator raises a TypeError.
\<close>

fun in_op :: "string \<Rightarrow> jsval \<Rightarrow> error + bool" where
  "in_op k (JObj f) = Inr (f k \<noteq> None)"
| "in_op k (JArr a) = Inr False"
| "in_op k v = Inl TypeError"

text \<open>
  \<open>a && b\<close> on conditions that may raise: \<open>b\<close> counts only when \<open>a\<close> is true.
\<close>

fun js_and :: "error + bool \<Rightarrow> error + bool \<Rightarrow> error + bool" where
  "js_and (Inl e) b = Inl e"
| "js_and (Inr False) b = Inr False"
| "js_and (Inr True) b = b"

text \<open>\<open>v.k\<close>, read where the field is known to be there.\<close>

fun field :: "jsval \<Rightarrow> string \<Rightarrow> real" where
  "field (JObj f) k = the (f k)"
| "field v k = undefined"

text \<open>Whether a value exposes a field at all.\<close>

fun exposes :: "string \<Rightarrow> jsval \<Rightarrow> bool" where
  "exposes k (JObj f) = (f k \<noteq> None)"
| "exposes k v = False"

text \<open>A truthy optional object (\<open>&& v\<close>): objects are truthy, \<open>undefined\<close> and \<open>null\<close> are not.\<close>

fun truthy :: "'a optional \<Rightarrow> bool" where
  "truthy (Given v) = True"
| "truthy v = False"

fun given :: "'a optional \<Rightarrow> 'a" where
  "given (Given v) = v"
| "given v = undefined"

text \<open>The nullish coalescing operator \<open>a ?? b\<close>.\<close>

fun nullish_or :: "'a optional \<Rightarrow> 'a \<Rightarrow> 'a" where
  "nullish_or (Given v) d = v"
| "nullish_or Undefined d = d"
| "nullish_or Null d = d"

text \<open>A typed value seen as a run-time object.\<close>

definition Vector2_obj :: "Vector2 \<Rightarrow> jsval" where
  "Vector2_obj v = JObj [''x'' \<mapsto> x2 v, ''y'' \<mapsto> y2 v]"

definition Vector3_obj :: "Vector3 \<Rightarrow> jsval" where
  "Vector3_obj v = JObj [''x'' \<mapsto> x3 v, ''y'' \<mapsto> y3 v, ''z'' \<mapsto> z3 v]"



text \<open>A run-time object read through a type guard (\<open>t is Matrix2\<close>): its fields by name.\<close>

definition as_Vector2 :: "jsval \<Rightarrow> Vector2" where
  "as_Vector2 t = \<lparr>x2 = field t ''x'', y2 = field t ''y''\<rparr>"

definition as_Vector3 :: "jsval \<Rightarrow> Vector3" where
  "as_Vector3 t = \<lparr>x3 = field t ''x'', y3 = field t ''y'', z3 = field t ''z''\<rparr>"

definition as_Matrix2 :: "jsval \<Rightarrow> Matrix2" where
  "as_Matrix2 t = \<lparr>ux2 = field t ''ux'', vx2 = field t ''vx'',
                   uy2 = field t ''uy'', vy2 = field t ''vy''\<rparr>"

definition as_Matrix3 :: "jsval \<Rightarrow> Matrix3" where
  "as_Matrix3 t = \<lparr>ux3 = field t ''ux'', vx3 = field t ''vx'', wx3 = field t ''wx'',
                   uy3 = field t ''uy'', vy3 = field t ''vy'', wy3 = field t ''wy'',
                   uz3 = field t ''uz'', vz3 = field t ''vz'', wz3 = field t ''wz''\<rparr>"

text \<open>
  \<open>ToNumber\<close> of ECMAScript, which \<open>m.ux * t\<close> applies to \<open>t\<close>: a number is itself; an
  array goes through its string form (\<open>[]\<close> is \<open>""\<close>, hence 0; \<open>[a]\<close> is the text of
  \<open>a\<close>, hence \<open>a\<close>; a longer array has commas, hence NaN); a plain object is NaN;
  \<open>null\<close> is 0 and \<open>undefined\<close> is NaN. \<open>None\<close> is NaN.
\<close>

fun ToNumber :: "jsval \<Rightarrow> real option" where
  "ToNumber (JNum r) = Some r"
| "ToNumber (JArr []) = Some 0"
| "ToNumber (JArr [a]) = Some a"
| "ToNumber (JArr (a # b # bs)) = None"
| "ToNumber (JObj f) = None"
| "ToNumber JNull = Some 0"
| "ToNumber JUndefined = None"

subsection \<open>Vector operations\<close>

text \<open>
  \<open>Vec3.from(x, y?, z?)\<close>:
  \<^verbatim>\<open>return { x: x, y: y ?? x, z: z ?? x };\<close>
\<close>

definition Vec3_from :: "real \<Rightarrow> real optional \<Rightarrow> real optional \<Rightarrow> Vector3" where
  "Vec3_from x y z = \<lparr>x3 = x, y3 = nullish_or y x, z3 = nullish_or z x\<rparr>"

text \<open>
  Of the vector namespaces the sources hold \<open>Vec3.from\<close> only; what else the matrix code
  calls from \<open>Vec2\<close> and \<open>Vec3\<close> follows the specification, sentence by sentence.
\<close>

text \<open>
  Modelled from the spec: \<open>Vec2.isVector2\<close>, which is missing. "\<open>isVector(value)\<close>: type
  predicate: true iff the value exposes all required numeric fields (x,y for 2D; x,y,z for
  3D) and nothing else is assumed."
\<close>

definition Vec2_isVector2 :: "jsval \<Rightarrow> bool" where
  "Vec2_isVector2 v = (exposes ''x'' v \<and> exposes ''y'' v)"

text \<open>
  Modelled from the spec: \<open>Vec2.dot\<close>, which is missing. "\<open>dot(a, b)\<close>: sum of
  component-wise products."
\<close>

definition Vec2_dot :: "Vector2 \<Rightarrow> Vector2 \<Rightarrow> real" where
  "Vec2_dot a b = x2 a * x2 b + y2 a * y2 b"

text \<open>
  Modelled from the spec: \<open>Vec3.isVector3\<close>, which is missing; the same sentence as for
  \<open>Vec2.isVector2\<close>, with the fields x, y, z.
\<close>

definition Vec3_isVector3 :: "jsval \<Rightarrow> bool" where
  "Vec3_isVector3 v = (exposes ''x'' v \<and> exposes ''y'' v \<and> exposes ''z'' v)"

text \<open>
  Modelled from the spec: \<open>Vec3.dot\<close>, which is missing. "\<open>dot(a, b)\<close>: sum of
  component-wise products."
\<close>

definition Vec3_dot :: "Vector3 \<Rightarrow> Vector3 \<Rightarrow> real" where
  "Vec3_dot a b = x3 a * x3 b + y3 a * y3 b + z3 a * z3 b"

text \<open>
  Modelled from the spec: \<open>Vec3.cross\<close>, which is missing. "\<open>cross(a, b)\<close>:
  (a.y*b.z - a.z*b.y, a.z*b.x - a.x*b.z, a.x*b.y - a.y*b.x)."
\<close>

definition Vec3_cross :: "Vector3 \<Rightarrow> Vector3 \<Rightarrow> Vector3" where
  "Vec3_cross a b = \<lparr>x3 = y3 a * z3 b - z3 a * y3 b,
                     y3 = z3 a * x3 b - x3 a * z3 b,
                     z3 = x3 a * y3 b - y3 a * x3 b\<rparr>"

text \<open>
  Modelled from the spec: \<open>Vec3.length\<close>, which is missing. "\<open>length(v)\<close>: Euclidean norm,
  sqrt(dot(v,v))."
\<close>

definition Vec3_length :: "Vector3 \<Rightarrow> real" where
  "Vec3_length v = sqrt (Vec3_dot v v)"

text \<open>
  Modelled from the spec: \<open>Vec3.normalize\<close>, which is missing. "\<open>normalize(v)\<close>: v scaled
  by 1/length(v)." At the zero vector the code divides by zero and yields NaN components;
  here \<open>1 / 0 = 0\<close>, so nothing is proved about that input.
\<close>

definition Vec3_normalize :: "Vector3 \<Rightarrow> Vector3" where
  "Vec3_normalize v = \<lparr>x3 = x3 v * (1 / Vec3_length v),
                       y3 = y3 v * (1 / Vec3_length v),
                       z3 = z3 v * (1 / Vec3_length v)\<rparr>"

text \<open>
  Modelled from the spec: the constant \<open>Vec3.West\<close>, which is missing. "a fixed fallback
  vector (a unit vector along the world west/negative-x axis)".
\<close>

definition Vec3_West :: Vector3 where
  "Vec3_West = \<lparr>x3 = - 1, y3 = 0, z3 = 0\<rparr>"

subsection \<open>Mat2 (matrix2.ts)\<close>

definition Mat2_Identity :: Matrix2 where
  "Mat2_Identity = \<lparr>ux2 = 1, vx2 = 0, uy2 = 0, vy2 = 1\<rparr>"

text \<open>
  \<^verbatim>\<open>return typeof m === "object" && 'ux' in m && 'vx' in m && 'uy' in m && 'vy' in m;\<close>
\<close>

definition Mat2_isMatrix2 :: "jsval \<Rightarrow> error + bool" where
  "Mat2_isMatrix2 m =
     js_and (js_and (js_and (js_and (Inr (typeof_object m))
       (in_op ''ux'' m)) (in_op ''vx'' m))
       (in_op ''uy'' m)) (in_op ''vy'' m)"

text \<open>
  \<open>Mat2.from(u: unknown, v?: Vector2)\<close>: the array form, then the two-column form, then
  the \<open>throw\<close>.
\<close>

definition Mat2_from :: "jsval \<Rightarrow> Vector2 optional \<Rightarrow> error + Matrix2" where
  "Mat2_from u v =
     (if isArray u \<and> length (elems u) \<ge> 4 then
        Inr \<lparr>ux2 = elems u ! 0, vx2 = elems u ! 1,
             uy2 = elems u ! 2, vy2 = elems u ! 3\<rparr>
      else if Vec2_isVector2 u \<and> truthy v then
        Inr \<lparr>ux2 = x2 (as_Vector2 u), vx2 = x2 (given v),
             uy2 = y2 (as_Vector2 u), vy2 = y2 (given v)\<rparr>
      else Inl InvalidInput)"

definition Mat2_c1 :: "Matrix2 \<Rightarrow> Vector2" where
  "Mat2_c1 m = \<lparr>x2 = ux2 m, y2 = uy2 m\<rparr>"

definition Mat2_c2 :: "Matrix2 \<Rightarrow> Vector2" where
  "Mat2_c2 m = \<lparr>x2 = vx2 m, y2 = vy2 m\<rparr>"

definition Mat2_r1 :: "Matrix2 \<Rightarrow> Vector2" where
  "Mat2_r1 m = \<lparr>x2 = ux2 m, y2 = vx2 m\<rparr>"

definition Mat2_r2 :: "Matrix2 \<Rightarrow> Vector2" where
  "Mat2_r2 m = \<lparr>x2 = uy2 m, y2 = vy2 m\<rparr>"

text \<open>
  \<open>Mat2.mul(m, t)\<close> returns from one of three \<open>return\<close> statements; the result records
  which: the matrix product, the matrix-vector product, or the scaled matrix. In the last
  one \<open>m.ux * t\<close> is NaN in every coefficient when \<open>t\<close> is not numeric. An exception
  raised by the first test leaves \<open>mul\<close> before any of them.
\<close>

datatype Mat2_result =
    MatrixProduct2 Matrix2
  | VectorProduct2 Vector2
  | ScalarProduct2 Matrix2
  | ScalarNaN2

definition Mat2_mul :: "Matrix2 \<Rightarrow> jsval \<Rightarrow> error + Mat2_result" where
  "Mat2_mul m t =
     (case Mat2_isMatrix2 t of
        Inl e \<Rightarrow> Inl e
      | Inr is_matrix \<Rightarrow>
          if is_matrix then Inr (MatrixProduct2
            \<lparr>ux2 = Vec2_dot (Mat2_r1 m) (Mat2_c1 (as_Matrix2 t)),
             vx2 = Vec2_dot (Mat2_r1 m) (Mat2_c2 (as_Matrix2 t)),
             uy2 = Vec2_dot (Mat2_r2 m) (Mat2_c1 (as_Matrix2 t)),
             vy2 = Vec2_dot (Mat2_r2 m) (Mat2_c2 (as_Matrix2 t))\<rparr>)
          else if Vec2_isVector2 t then Inr (VectorProduct2
            \<lparr>x2 = Vec2_dot (Mat2_r1 m) (as_Vector2 t),
             y2 = Vec2_dot (Mat2_r2 m) (as_Vector2 t)\<rparr>)
          else Inr (case ToNumber t of
                  Some s \<Rightarrow> ScalarProduct2
                    \<lparr>ux2 = ux2 m * s, vx2 = vx2 m * s,
                     uy2 = uy2 m * s, vy2 = vy2 m * s\<rparr>
                | None \<Rightarrow> ScalarNaN2))"

text \<open>
  The three overload signatures of \<open>mul\<close>, as the typed callers see them:
  \<open>mul(m, s: number): Matrix2\<close>, \<open>mul(m, v: Vector2): Vector2\<close>,
  \<open>mul(m, n: Matrix2): Matrix2\<close>. Each passes its argument to the one implementation
  and reads the result at the declared type.
\<close>

fun the_Matrix2 :: "Mat2_result \<Rightarrow> Matrix2" where
  "the_Matrix2 (MatrixProduct2 r) = r"
| "the_Matrix2 (ScalarProduct2 r) = r"
| "the_Matrix2 r = undefined"

fun the_Vector2 :: "Mat2_result \<Rightarrow> Vector2" where
  "the_Vector2 (VectorProduct2 r) = r"
| "the_Vector2 r = undefined"

definition Mat2_mul_scalar :: "Matrix2 \<Rightarrow> real \<Rightarrow> error + Matrix2" where
  "Mat2_mul_scalar m s = map_sum id the_Matrix2 (Mat2_mul m (JNum s))"

definition Mat2_mul_vector :: "Matrix2 \<Rightarrow> Vector2 \<Rightarrow> error + Vector2" where
  "Mat2_mul_vector m v = map_sum id the_Vector2 (Mat2_mul m (Vector2_obj v))"


definition Mat2_trace :: "Matrix2 \<Rightarrow> real" where
  "Mat2_trace m = ux2 m + vy2 m"

definition Mat2_determinant :: "Matrix2 \<Rightarrow> real" where
  "Mat2_determinant m = ux2 m * vy2 m - vx2 m * uy2 m"

definition Mat2_transpose :: "Matrix2 \<Rightarrow> Matrix2" where
  "Mat2_transpose m = \<lparr>ux2 = ux2 m, vx2 = uy2 m,
                       uy2 = vx2 m, vy2 = vy2 m\<rparr>"

definition Mat2_cofactor :: "Matrix2 \<Rightarrow> Matrix2" where
  "Mat2_cofactor m = \<lparr>ux2 = vy2 m, vx2 = - uy2 m,
                      uy2 = - vx2 m, vy2 = ux2 m\<rparr>"

definition Mat2_adjugate :: "Matrix2 \<Rightarrow> Matrix2" where
  "Mat2_adjugate m = \<lparr>ux2 = vy2 m, vx2 = - vx2 m,
                      uy2 = - uy2 m, vy2 = ux2 m\<rparr>"

text \<open>
  \<^verbatim>\<open>
  const det = determinant(m);
  if (det === 0) throw new Error("Matrix is not invertible.");
  return mul(adjugate(m), 1 / det);
  \<close>
\<close>

definition Mat2_inverse :: "Matrix2 \<Rightarrow> error + Matrix2" where
  "Mat2_inverse m =
     (let det = Mat2_determinant m in
      if det = 0 then Inl NotInvertible
      else Mat2_mul_scalar (Mat2_adjugate m) (1 / det))"

subsection \<open>Mat3 (the matrix3 source with \<open>inverse\<close> and \<open>buildTNB\<close>)\<close>

text \<open>
  The sources hold two revisions of the 3x3 namespace. The one modelled here is the full
  one: \<open>from\<close> on arrays, the three-way \<open>mul\<close>, \<open>adjugate\<close>, \<open>inverse\<close>, \<open>buildTNB\<close>.
  The shorter one (src/matrix3.ts) names rows and columns \<open>row1\<close>, \<open>col1\<close>, ..., has no
  matrix branch in \<open>mul\<close> and stops at \<open>cofactor\<close>; its \<open>transpose\<close>, \<open>determinant\<close> and
  \<open>cofactor\<close> are the same expressions.
\<close>

definition Mat3_Identity :: Matrix3 where
  "Mat3_Identity = \<lparr>ux3 = 1, vx3 = 0, wx3 = 0,
                    uy3 = 0, vy3 = 1, wy3 = 0,
                    uz3 = 0, vz3 = 0, wz3 = 1\<rparr>"

text \<open>
  \<^verbatim>\<open>
  return typeof m === "object"
      && 'ux' in m && 'vx' in m && 'wx' in m
      && 'uy' in m && 'vy' in m && 'wy' in m
      && 'uz' in m && 'vz' in m && 'wz' in m;
  \<close>
\<close>

definition Mat3_isMatrix3 :: "jsval \<Rightarrow> error + bool" where
  "Mat3_isMatrix3 m =
     js_and (js_and (js_and (js_and (js_and (js_and (js_and (js_and (js_and
       (Inr (typeof_object m))
       (in_op ''ux'' m)) (in_op ''vx'' m)) (in_op ''wx'' m))
       (in_op ''uy'' m)) (in_op ''vy'' m)) (in_op ''wy'' m))
       (in_op ''uz'' m)) (in_op ''vz'' m)) (in_op ''wz'' m)"

definition Mat3_from :: "jsval \<Rightarrow> Vector3 optional \<Rightarrow> Vector3 optional \<Rightarrow> error + Matrix3" where
  "Mat3_from u v w =
     (if isArray u \<and> length (elems u) \<ge> 9 then
        Inr \<lparr>ux3 = elems u ! 0, vx3 = elems u ! 1, wx3 = elems u ! 2,
             uy3 = elems u ! 3, vy3 = elems u ! 4, wy3 = elems u ! 5,
             uz3 = elems u ! 6, vz3 = elems u ! 7, wz3 = elems u ! 8\<rparr>
      else if Vec3_isVector3 u \<and> truthy v \<and> truthy w then
        Inr \<lparr>ux3 = x3 (as_Vector3 u), vx3 = x3 (given v), wx3 = x3 (given w),
             uy3 = y3 (as_Vector3 u), vy3 = y3 (given v), wy3 = y3 (given w),
             uz3 = z3 (as_Vector3 u), vz3 = z3 (given v), wz3 = z3 (given w)\<rparr>
      else Inl InvalidInput)"

definition Mat3_c1 :: "Matrix3 \<Rightarrow> Vector3" where
  "Mat3_c1 m = \<lparr>x3 = ux3 m, y3 = uy3 m, z3 = uz3 m\<rparr>"

definition Mat3_c2 :: "Matrix3 \<Rightarrow> Vector3" where
  "Mat3_c2 m = \<lparr>x3 = vx3 m, y3 = vy3 m, z3 = vz3 m\<rparr>"

definition Mat3_c3 :: "Matrix3 \<Rightarrow> Vector3" where
  "Mat3_c3 m = \<lparr>x3 = wx3 m, y3 = wy3 m, z3 = wz3 m\<rparr>"

definition Mat3_r1 :: "Matrix3 \<Rightarrow> Vector3" where
  "Mat3_r1 m = \<lparr>x3 = ux3 m, y3 = vx3 m, z3 = wx3 m\<rparr>"

definition Mat3_r2 :: "Matrix3 \<Rightarrow> Vector3" where
  "Mat3_r2 m = \<lparr>x3 = uy3 m, y3 = vy3 m, z3 = wy3 m\<rparr>"

definition Mat3_r3 :: "Matrix3 \<Rightarrow> Vector3" where
  "Mat3_r3 m = \<lparr>x3 = uz3 m, y3 = vz3 m, z3 = wz3 m\<rparr>"

datatype Mat3_result =
    MatrixProduct3 Matrix3
  | VectorProduct3 Vector3
  | ScalarProduct3 Matrix3
  | ScalarNaN3

definition Mat3_mul :: "Matrix3 \<Rightarrow> jsval \<Rightarrow> error + Mat3_result" where
  "Mat3_mul m t =
     (case Mat3_isMatrix3 t of
        Inl e \<Rightarrow> Inl e
      | Inr is_matrix \<Rightarrow>
          if is_matrix then Inr (MatrixProduct3
            \<lparr>ux3 = Vec3_dot (Mat3_r1 m) (Mat3_c1 (as_Matrix3 t)),
             vx3 = Vec3_dot (Mat3_r1 m) (Mat3_c2 (as_Matrix3 t)),
             wx3 = Vec3_dot (Mat3_r1 m) (Mat3_c3 (as_Matrix3 t)),
             uy3 = Vec3_dot (Mat3_r2 m) (Mat3_c1 (as_Matrix3 t)),
             vy3 = Vec3_dot (Mat3_r2 m) (Mat3_c2 (as_Matrix3 t)),
             wy3 = Vec3_dot (Mat3_r2 m) (Mat3_c3 (as_Matrix3 t)),
             uz3 = Vec3_dot (Mat3_r3 m) (Mat3_c1 (as_Matrix3 t)),
             vz3 = Vec3_dot (Mat3_r3 m) (Mat3_c2 (as_Matrix3 t)),
             wz3 = Vec3_dot (Mat3_r3 m) (Mat3_c3 (as_Matrix3 t))\<rparr>)
          else if Vec3_isVector3 t then Inr (VectorProduct3
            \<lparr>x3 = Vec3_dot (Mat3_r1 m) (as_Vector3 t),
             y3 = Vec3_dot (Mat3_r2 m) (as_Vector3 t),
             z3 = Vec3_dot (Mat3_r3 m) (as_Vector3 t)\<rparr>)
          else Inr (case ToNumber t of
                  Some s \<Rightarrow> ScalarProduct3
                    \<lparr>ux3 = ux3 m * s, vx3 = vx3 m * s, wx3 = wx3 m * s,
                     uy3 = uy3 m * s, vy3 = vy3 m * s, wy3 = wy3 m * s,
                     uz3 = uz3 m * s, vz3 = vz3 m * s, wz3 = wz3 m * s\<rparr>
                | None \<Rightarrow> ScalarNaN3))"

fun the_Matrix3 :: "Mat3_result \<Rightarrow> Matrix3" where
  "the_Matrix3 (MatrixProduct3 r) = r"
| "the_Matrix3 (ScalarProduct3 r) = r"
| "the_Matrix3 r = undefined"

fun the_Vector3 :: "Mat3_result \<Rightarrow> Vector3" where
  "the_Vector3 (VectorProduct3 r) = r"
| "the_Vector3 r = undefined"

definition Mat3_mul_scalar :: "Matrix3 \<Rightarrow> real \<Rightarrow> error + Matrix3" where
  "Mat3_mul_scalar m s = map_sum id the_Matrix3 (Mat3_mul m (JNum s))"

definition Mat3_mul_vector :: "Matrix3 \<Rightarrow> Vector3 \<Rightarrow> error + Vector3" where
  "Mat3_mul_vector m v = map_sum id the_Vector3 (Mat3_mul m (Vector3_obj v))"


definition Mat3_trace :: "Matrix3 \<Rightarrow> real" where
  "Mat3_trace m = ux3 m + vy3 m + wz3 m"

definition Mat3_determinant :: "Matrix3 \<Rightarrow> real" where
  "Mat3_determinant m =
     ux3 m * vy3 m * wz3 m + uy3 m * vz3 m * wx3 m + uz3 m * vx3 m * wy3 m
     - wx3 m * vy3 m * uz3 m - wy3 m * vz3 m * ux3 m - wz3 m * vx3 m * uy3 m"

definition Mat3_transpose :: "Matrix3 \<Rightarrow> Matrix3" where
  "Mat3_transpose m = \<lparr>ux3 = ux3 m, vx3 = uy3 m, wx3 = uz3 m,
                       uy3 = vx3 m, vy3 = vy3 m, wy3 = vz3 m,
                       uz3 = wx3 m, vz3 = wy3 m, wz3 = wz3 m\<rparr>"

definition Mat3_cofactor :: "Matrix3 \<Rightarrow> Matrix3" where
  "Mat3_cofactor m =
     \<lparr>ux3 = vy3 m * wz3 m - wy3 m * vz3 m,
      vx3 = wy3 m * uz3 m - uy3 m * wz3 m,
      wx3 = uy3 m * vz3 m - vy3 m * uz3 m,
      uy3 = wx3 m * vz3 m - vx3 m * wz3 m,
      vy3 = ux3 m * wz3 m - wx3 m * uz3 m,
      wy3 = vx3 m * uz3 m - ux3 m * vz3 m,
      uz3 = vx3 m * wy3 m - wx3 m * vy3 m,
      vz3 = wx3 m * uy3 m - ux3 m * wy3 m,
      wz3 = ux3 m * vy3 m - vx3 m * uy3 m\<rparr>"

definition Mat3_adjugate :: "Matrix3 \<Rightarrow> Matrix3" where
  "Mat3_adjugate m =
     \<lparr>ux3 = vy3 m * wz3 m - wy3 m * vz3 m,
      vx3 = wx3 m * vz3 m - vx3 m * wz3 m,
      wx3 = vx3 m * wy3 m - wx3 m * vy3 m,
      uy3 = wy3 m * uz3 m - uy3 m * wz3 m,
      vy3 = ux3 m * wz3 m - wx3 m * uz3 m,
      wy3 = wx3 m * uy3 m - ux3 m * wy3 m,
      uz3 = uy3 m * vz3 m - vy3 m * uz3 m,
      vz3 = vx3 m * uz3 m - ux3 m * vz3 m,
      wz3 = ux3 m * vy3 m - vx3 m * uy3 m\<rparr>"

definition Mat3_inverse :: "Matrix3 \<Rightarrow> error + Matrix3" where
  "Mat3_inverse m =
     (let det = Mat3_determinant m in
      if det = 0 then Inl NotInvertible
      else Mat3_mul_scalar (Mat3_adjugate m) (1 / det))"

text \<open>
  \<^verbatim>\<open>
  const u = Math.abs(n.y) === 1 ?
      Vec3.West : Vec3.normalize(Vec3.from(n.z, 0, -n.x));
  const w = Vec3.cross(n, u);
  return from(u, n, w);
  \<close>
\<close>

definition Mat3_buildTNB :: "Vector3 \<Rightarrow> error + Matrix3" where
  "Mat3_buildTNB n =
     (let u = (if \<bar>y3 n\<bar> = 1 then Vec3_West
               else Vec3_normalize (Vec3_from (z3 n) (Given 0) (Given (- x3 n))));
          w = Vec3_cross n u
      in Mat3_from (Vector3_obj u) (Given n) (Given w))"

subsection \<open>Reference notions: entries, minors and the Leibniz determinant\<close>

text \<open>
  The textbook notions the coefficient formulas are compared with. A matrix is read as
  the list of its rows, taken with the code's own \<open>r1\<close>, \<open>r2\<close>, \<open>r3\<close>; rows and columns
  are counted from 0, so coefficient \<open>vx\<close> (column \<open>v\<close>, row \<open>x\<close>) is the entry at row 0,
  column 1.
\<close>

definition Vector2_list :: "Vector2 \<Rightarrow> real list" where
  "Vector2_list v = [x2 v, y2 v]"

definition Vector3_list :: "Vector3 \<Rightarrow> real list" where
  "Vector3_list v = [x3 v, y3 v, z3 v]"

definition Mat2_rows :: "Matrix2 \<Rightarrow> real list list" where
  "Mat2_rows m = [Vector2_list (Mat2_r1 m), Vector2_list (Mat2_r2 m)]"

definition Mat3_rows :: "Matrix3 \<Rightarrow> real list list" where
  "Mat3_rows m =
     [Vector3_list (Mat3_r1 m), Vector3_list (Mat3_r2 m), Vector3_list (Mat3_r3 m)]"

definition entry :: "real list list \<Rightarrow> nat \<Rightarrow> nat \<Rightarrow> real" where
  "entry rows i j = rows ! i ! j"

text \<open>
  The Leibniz formula: the sum, over the permutations \<open>p\<close> of the column indices, of the
  sign of \<open>p\<close> times the product of the entries at (row \<open>i\<close>, column \<open>p i\<close>). The sign is
  -1 to the number of inversions.
\<close>

fun inversions :: "nat list \<Rightarrow> nat" where
  "inversions [] = 0"
| "inversions (p # ps) = length (filter (\<lambda>q. q < p) ps) + inversions ps"

definition sign :: "nat list \<Rightarrow> real" where
  "sign p = (- 1) ^ inversions p"

definition permutations :: "nat \<Rightarrow> nat list list" where
  "permutations n = filter distinct (List.n_lists n [0..<n])"

definition reference_determinant :: "nat \<Rightarrow> real list list \<Rightarrow> real" where
  "reference_determinant n rows =
     (\<Sum>p\<leftarrow>permutations n. sign p * (\<Prod>i\<leftarrow>[0..<n]. entry rows i (p ! i)))"

text \<open>
  The minor at (row \<open>i\<close>, column \<open>j\<close>): the determinant of what is left of the matrix
  once row \<open>i\<close> and column \<open>j\<close> are deleted.
\<close>

definition delete_at :: "nat \<Rightarrow> 'a list \<Rightarrow> 'a list" where
  "delete_at i xs = take i xs @ drop (Suc i) xs"

definition submatrix :: "real list list \<Rightarrow> nat \<Rightarrow> nat \<Rightarrow> real list list" where
  "submatrix rows i j = map (delete_at j) (delete_at i rows)"

definition reference_minor :: "real list list \<Rightarrow> nat \<Rightarrow> nat \<Rightarrow> real" where
  "reference_minor rows i j =
     reference_determinant (length rows - 1) (submatrix rows i j)"

text \<open>
  Which \<open>return\<close> of \<open>mul\<close> a call reached; a call that raised reached none. A value
  satisfies a predicate when the predicate answers \<open>true\<close> on it.
\<close>

fun matrix_branch2 :: "error + Mat2_result \<Rightarrow> bool" where
  "matrix_branch2 (Inr (MatrixProduct2 r)) = True"
| "matrix_branch2 r = False"

fun scalar_branch2 :: "error + Mat2_result \<Rightarrow> bool" where
  "scalar_branch2 (Inr (ScalarProduct2 r)) = True"
| "scalar_branch2 (Inr ScalarNaN2) = True"
| "scalar_branch2 r = False"

fun matrix_branch3 :: "error + Mat3_result \<Rightarrow> bool" where
  "matrix_branch3 (Inr (MatrixProduct3 r)) = True"
| "matrix_branch3 r = False"

fun scalar_branch3 :: "error + Mat3_result \<Rightarrow> bool" where
  "scalar_branch3 (Inr (ScalarProduct3 r)) = True"
| "scalar_branch3 (Inr ScalarNaN3) = True"
| "scalar_branch3 r = False"

definition satisfies :: "(jsval \<Rightarrow> error + bool) \<Rightarrow> jsval \<Rightarrow> bool" where
  "satisfies p t = (p t = Inr True)"

subsection \<open>Mat2 in binary64\<close>













section \<open>Properties\<close>

subsection \<open>Typed values as run-time objects\<close>



lemma Vector3_obj_guard:
  "Vec3_isVector3 (Vector3_obj v) \<and> as_Vector3 (Vector3_obj v) = v
   \<and> \<not> isArray (Vector3_obj v)"
  by (simp add: Vec3_isVector3_def Vector3_obj_def as_Vector3_def)

subsection \<open>The matrix predicates, value by value\<close>

lemma js_and_Inr: "js_and (Inr a) (Inr b) = Inr (a \<and> b)"
  by (cases a) simp_all

lemma Mat2_isMatrix2_cases:
  "Mat2_isMatrix2 (JNum r) = Inr False"
  "Mat2_isMatrix2 (JArr a) = Inr False"
  "Mat2_isMatrix2 (JObj f) =
     Inr (f ''ux'' \<noteq> None \<and> f ''vx'' \<noteq> None \<and> f ''uy'' \<noteq> None \<and> f ''vy'' \<noteq> None)"
  "Mat2_isMatrix2 JNull = Inl TypeError"
  "Mat2_isMatrix2 JUndefined = Inr False"
  by (simp_all add: Mat2_isMatrix2_def js_and_Inr)

lemma Mat3_isMatrix3_cases:
  "Mat3_isMatrix3 (JNum r) = Inr False"
  "Mat3_isMatrix3 (JArr a) = Inr False"
  "Mat3_isMatrix3 (JObj f) =
     Inr (f ''ux'' \<noteq> None \<and> f ''vx'' \<noteq> None \<and> f ''wx'' \<noteq> None
        \<and> f ''uy'' \<noteq> None \<and> f ''vy'' \<noteq> None \<and> f ''wy'' \<noteq> None
        \<and> f ''uz'' \<noteq> None \<and> f ''vz'' \<noteq> None \<and> f ''wz'' \<noteq> None)"
  "Mat3_isMatrix3 JNull = Inl TypeError"
  "Mat3_isMatrix3 JUndefined = Inr False"
  by (simp_all add: Mat3_isMatrix3_def js_and_Inr)

subsection \<open>The overloads of \<open>mul\<close> on typed arguments\<close>

lemma Mat2_mul_scalar_eq:
  "Mat2_mul_scalar m s =
     Inr \<lparr>ux2 = ux2 m * s, vx2 = vx2 m * s, uy2 = uy2 m * s, vy2 = vy2 m * s\<rparr>"
  by (simp add: Mat2_mul_scalar_def Mat2_mul_def Mat2_isMatrix2_def Vec2_isVector2_def)

lemma Mat3_mul_scalar_eq:
  "Mat3_mul_scalar m s =
     Inr \<lparr>ux3 = ux3 m * s, vx3 = vx3 m * s, wx3 = wx3 m * s,
          uy3 = uy3 m * s, vy3 = vy3 m * s, wy3 = wy3 m * s,
          uz3 = uz3 m * s, vz3 = vz3 m * s, wz3 = wz3 m * s\<rparr>"
  by (simp add: Mat3_mul_scalar_def Mat3_mul_def Mat3_isMatrix3_def Vec3_isVector3_def)



subsection \<open>Permutations of two and three indices\<close>

lemma permutations_2: "permutations 2 = [[1, 0], [0, 1]]"
  by code_simp

lemma permutations_3:
  "permutations 3 = [[2, 1, 0], [1, 2, 0], [2, 0, 1], [0, 2, 1], [1, 0, 2], [0, 1, 2]]"
  by code_simp

lemma upt_2: "[0..<2] = [0, 1]"
  by code_simp

lemma upt_3: "[0..<3] = [0, 1, 2]"
  by code_simp

lemma reference_determinant_2:
  "reference_determinant 2 [[a, b], [c, d]] = a * d - b * c"
  by (simp add: reference_determinant_def permutations_2 upt_2 sign_def entry_def)

lemma reference_determinant_3:
  "reference_determinant 3 [[a, b, c], [d, e, f], [g, h, k]] =
     a * e * k + d * h * c + g * b * f - c * e * g - f * h * a - k * b * d"
  by (simp add: reference_determinant_def permutations_3 upt_3 sign_def entry_def)

lemma Mat2_rows_eq: "Mat2_rows m = [[ux2 m, vx2 m], [uy2 m, vy2 m]]"
  by (simp add: Mat2_rows_def Vector2_list_def Mat2_r1_def Mat2_r2_def)

lemma Mat3_rows_eq:
  "Mat3_rows m = [[ux3 m, vx3 m, wx3 m], [uy3 m, vy3 m, wy3 m], [uz3 m, vz3 m, wz3 m]]"
  by (simp add: Mat3_rows_def Vector3_list_def Mat3_r1_def Mat3_r2_def Mat3_r3_def)

lemma less_3_cases: "i < (3::nat) \<Longrightarrow> i = 0 \<or> i = 1 \<or> i = 2"
  by arith

lemma reference_determinant_Suc_Suc_0:
  "reference_determinant (Suc (Suc 0)) [[a, b], [c, d]] = a * d - b * c"
  using reference_determinant_2 [of a b c d] by (simp add: numeral_2_eq_2)

subsection \<open>Columns given as vectors\<close>

lemma Vector3_eta: "\<lparr>x3 = x3 v, y3 = y3 v, z3 = z3 v\<rparr> = v"
  by (cases v) simp

lemma Mat3_from_columns:
  "Mat3_from (Vector3_obj u) (Given v) (Given w) =
     Inr \<lparr>ux3 = x3 u, vx3 = x3 v, wx3 = x3 w,
          uy3 = y3 u, vy3 = y3 v, wy3 = y3 w,
          uz3 = z3 u, vz3 = z3 v, wz3 = z3 w\<rparr>"
  by (simp add: Mat3_from_def Vector3_obj_guard)

subsection \<open>A matrix times its adjugate\<close>







subsection \<open>Evaluating binary64 arithmetic\<close>






section \<open>The claims\<close>

text \<open>
  C1. For every Matrix2 and every Matrix3, \<open>inverse\<close> raises NotInvertible if and only if
  the determinant is exactly zero (no tolerance), and when the determinant is not zero it
  returns the adjugate with every coefficient multiplied by \<open>1 / determinant\<close>.
\<close>

theorem inverse_NotInvertible_iff_zero_determinant:
  "(Mat2_inverse m = Inl NotInvertible \<longleftrightarrow> Mat2_determinant m = 0)
   \<and> (Mat2_determinant m \<noteq> 0 \<longrightarrow>
        Mat2_inverse m = Inr
          \<lparr>ux2 = ux2 (Mat2_adjugate m) * (1 / Mat2_determinant m),
           vx2 = vx2 (Mat2_adjugate m) * (1 / Mat2_determinant m),
           uy2 = uy2 (Mat2_adjugate m) * (1 / Mat2_determinant m),
           vy2 = vy2 (Mat2_adjugate m) * (1 / Mat2_determinant m)\<rparr>)
   \<and> (Mat3_inverse n = Inl NotInvertible \<longleftrightarrow> Mat3_determinant n = 0)
   \<and> (Mat3_determinant n \<noteq> 0 \<longrightarrow>
        Mat3_inverse n = Inr
          \<lparr>ux3 = ux3 (Mat3_adjugate n) * (1 / Mat3_determinant n),
           vx3 = vx3 (Mat3_adjugate n) * (1 / Mat3_determinant n),
           wx3 = wx3 (Mat3_adjugate n) * (1 / Mat3_determinant n),
           uy3 = uy3 (Mat3_adjugate n) * (1 / Mat3_determinant n),
           vy3 = vy3 (Mat3_adjugate n) * (1 / Mat3_determinant n),
           wy3 = wy3 (Mat3_adjugate n) * (1 / Mat3_determinant n),
           uz3 = uz3 (Mat3_adjugate n) * (1 / Mat3_determinant n),
           vz3 = vz3 (Mat3_adjugate n) * (1 / Mat3_determinant n),
           wz3 = wz3 (Mat3_adjugate n) * (1 / Mat3_determinant n)\<rparr>)"
proof -
  have two: "Mat2_inverse m =
      (if Mat2_determinant m = 0 then Inl NotInvertible
       else Mat2_mul_scalar (Mat2_adjugate m) (1 / Mat2_determinant m))"
    by (simp add: Mat2_inverse_def Let_def)
  have three: "Mat3_inverse n =
      (if Mat3_determinant n = 0 then Inl NotInvertible
       else Mat3_mul_scalar (Mat3_adjugate n) (1 / Mat3_determinant n))"
    by (simp add: Mat3_inverse_def Let_def)
  show ?thesis
    unfolding two three Mat2_mul_scalar_eq Mat3_mul_scalar_eq by simp
qed

text \<open>
  At \<open>[1, 2, 3, 4]\<close> (determinant -2) and at a 3x3 matrix of determinant 1 the inverse is
  returned; at matrices with two equal or proportional rows the error is raised; and a
  determinant of one millionth of a millionth is not zero.
\<close>

theorem inverse_NotInvertible_iff_zero_determinant_witness:
  "Mat2_determinant \<lparr>ux2 = 1, vx2 = 2, uy2 = 3, vy2 = 4\<rparr> \<noteq> 0
   \<and> Mat2_inverse \<lparr>ux2 = 1, vx2 = 2, uy2 = 3, vy2 = 4\<rparr>
       = Inr \<lparr>ux2 = - 2, vx2 = 1, uy2 = 3 / 2, vy2 = - 1 / 2\<rparr>
   \<and> Mat3_determinant \<lparr>ux3 = 1, vx3 = 2, wx3 = 3, uy3 = 0, vy3 = 1, wy3 = 4,
                        uz3 = 5, vz3 = 6, wz3 = 0\<rparr> \<noteq> 0
   \<and> Mat3_inverse \<lparr>ux3 = 1, vx3 = 2, wx3 = 3, uy3 = 0, vy3 = 1, wy3 = 4,
                    uz3 = 5, vz3 = 6, wz3 = 0\<rparr>
       = Inr \<lparr>ux3 = - 24, vx3 = 18, wx3 = 5, uy3 = 20, vy3 = - 15, wy3 = - 4,
              uz3 = - 5, vz3 = 4, wz3 = 1\<rparr>
   \<and> Mat2_determinant \<lparr>ux2 = 1, vx2 = 2, uy2 = 2, vy2 = 4\<rparr> = 0
   \<and> Mat2_inverse \<lparr>ux2 = 1, vx2 = 2, uy2 = 2, vy2 = 4\<rparr> = Inl NotInvertible
   \<and> Mat3_determinant \<lparr>ux3 = 1, vx3 = 2, wx3 = 3, uy3 = 1, vy3 = 2, wy3 = 3,
                        uz3 = 5, vz3 = 6, wz3 = 0\<rparr> = 0
   \<and> Mat3_inverse \<lparr>ux3 = 1, vx3 = 2, wx3 = 3, uy3 = 1, vy3 = 2, wy3 = 3,
                    uz3 = 5, vz3 = 6, wz3 = 0\<rparr> = Inl NotInvertible
   \<and> Mat2_inverse \<lparr>ux2 = 1, vx2 = 0, uy2 = 0, vy2 = 1 / 1000000000000\<rparr>
       = Inr \<lparr>ux2 = 1, vx2 = 0, uy2 = 0, vy2 = 1000000000000\<rparr>"
  using inverse_NotInvertible_iff_zero_determinant
          [of "\<lparr>ux2 = 1, vx2 = 2, uy2 = 3, vy2 = 4\<rparr>"
              "\<lparr>ux3 = 1, vx3 = 2, wx3 = 3, uy3 = 0, vy3 = 1, wy3 = 4,
                uz3 = 5, vz3 = 6, wz3 = 0\<rparr>"]
        inverse_NotInvertible_iff_zero_determinant
          [of "\<lparr>ux2 = 1, vx2 = 2, uy2 = 2, vy2 = 4\<rparr>"
              "\<lparr>ux3 = 1, vx3 = 2, wx3 = 3, uy3 = 1, vy3 = 2, wy3 = 3,
                uz3 = 5, vz3 = 6, wz3 = 0\<rparr>"]
        inverse_NotInvertible_iff_zero_determinant
          [of "\<lparr>ux2 = 1, vx2 = 0, uy2 = 0, vy2 = 1 / 1000000000000\<rparr>"
              "\<lparr>ux3 = 1, vx3 = 2, wx3 = 3, uy3 = 0, vy3 = 1, wy3 = 4,
                uz3 = 5, vz3 = 6, wz3 = 0\<rparr>"]
  by (simp add: Mat2_determinant_def Mat3_determinant_def Mat2_adjugate_def Mat3_adjugate_def)

text \<open>
  C2. For every Vector3 \<open>n\<close>, \<open>buildTNB(n)\<close> returns a matrix whose second column is \<open>n\<close>
  itself; whose first column is the west vector when \<open>|n.y| = 1\<close> exactly and
  \<open>normalize((n.z, 0, -n.x))\<close> otherwise; and whose third column is the cross product of
  \<open>n\<close> with the first column.
\<close>

theorem buildTNB_columns:
  "\<exists>M. Mat3_buildTNB n = Inr M
      \<and> Mat3_c2 M = n
      \<and> Mat3_c1 M = (if \<bar>y3 n\<bar> = 1 then Vec3_West
                     else Vec3_normalize \<lparr>x3 = z3 n, y3 = 0, z3 = - x3 n\<rparr>)
      \<and> Mat3_c3 M = Vec3_cross n (Mat3_c1 M)"
  by (simp add: Mat3_buildTNB_def Let_def Mat3_from_columns Vector3_eta
        Mat3_c1_def Mat3_c2_def Mat3_c3_def Vec3_from_def)

text \<open>
  The pole \<open>{x: 0, y: 1, z: 0}\<close> takes the fallback: its first column is (-1, 0, 0).
  The normal \<open>{x: 1, y: 0, z: 0}\<close> takes the other branch.
\<close>

theorem buildTNB_columns_witness:
  "Mat3_buildTNB \<lparr>x3 = 0, y3 = 1, z3 = 0\<rparr>
     = Inr \<lparr>ux3 = - 1, vx3 = 0, wx3 = 0,
            uy3 = 0, vy3 = 1, wy3 = 0,
            uz3 = 0, vz3 = 0, wz3 = 1\<rparr>
   \<and> Mat3_buildTNB \<lparr>x3 = 1, y3 = 0, z3 = 0\<rparr>
     = Inr \<lparr>ux3 = 0, vx3 = 1, wx3 = 0,
            uy3 = 0, vy3 = 0, wy3 = 1,
            uz3 = - 1, vz3 = 0, wz3 = 0\<rparr>"
proof -
  obtain M where M: "Mat3_buildTNB \<lparr>x3 = 0, y3 = 1, z3 = 0\<rparr> = Inr M"
      "Mat3_c2 M = \<lparr>x3 = 0, y3 = 1, z3 = 0\<rparr>"
      "Mat3_c1 M = Vec3_West"
      "Mat3_c3 M = Vec3_cross \<lparr>x3 = 0, y3 = 1, z3 = 0\<rparr> Vec3_West"
    using buildTNB_columns [of "\<lparr>x3 = 0, y3 = 1, z3 = 0\<rparr>"] by auto
  obtain N where N: "Mat3_buildTNB \<lparr>x3 = 1, y3 = 0, z3 = 0\<rparr> = Inr N"
      "Mat3_c2 N = \<lparr>x3 = 1, y3 = 0, z3 = 0\<rparr>"
      "Mat3_c1 N = Vec3_normalize \<lparr>x3 = 0, y3 = 0, z3 = - 1\<rparr>"
      "Mat3_c3 N = Vec3_cross \<lparr>x3 = 1, y3 = 0, z3 = 0\<rparr>
                     (Vec3_normalize \<lparr>x3 = 0, y3 = 0, z3 = - 1\<rparr>)"
    using buildTNB_columns [of "\<lparr>x3 = 1, y3 = 0, z3 = 0\<rparr>"] by auto
  have "M = \<lparr>ux3 = - 1, vx3 = 0, wx3 = 0, uy3 = 0, vy3 = 1, wy3 = 0,
             uz3 = 0, vz3 = 0, wz3 = 1\<rparr>"
    using M(2-4)
    by (cases M) (simp add: Mat3_c1_def Mat3_c2_def Mat3_c3_def Vec3_West_def Vec3_cross_def)
  moreover have "N = \<lparr>ux3 = 0, vx3 = 1, wx3 = 0, uy3 = 0, vy3 = 0, wy3 = 1,
             uz3 = - 1, vz3 = 0, wz3 = 0\<rparr>"
    using N(2-4)
    by (cases N) (simp add: Mat3_c1_def Mat3_c2_def Mat3_c3_def Vec3_normalize_def
          Vec3_length_def Vec3_dot_def Vec3_cross_def)
  ultimately show ?thesis using M(1) N(1) by simp
qed

text \<open>
  C3. For every Matrix3 \<open>m\<close> and every row \<open>i\<close> and column \<open>j\<close>, the entry of
  \<open>cofactor(m)\<close> at (row \<open>i\<close>, column \<open>j\<close>) is \<open>(-1)^(i+j)\<close> times the determinant of the
  2x2 matrix left when row \<open>i\<close> and column \<open>j\<close> of \<open>m\<close> are deleted, where coefficient
  \<open>ab\<close> sits in column \<open>a\<close>, row \<open>b\<close>.
\<close>

theorem cofactor_signed_minors:
  "Mat3_rows m = [[ux3 m, vx3 m, wx3 m], [uy3 m, vy3 m, wy3 m], [uz3 m, vz3 m, wz3 m]]
   \<and> (\<forall>i<3. \<forall>j<3.
         entry (Mat3_rows (Mat3_cofactor m)) i j
           = (- 1) ^ (i + j) * reference_minor (Mat3_rows m) i j)"
proof -
  have "entry (Mat3_rows (Mat3_cofactor m)) i j
          = (- 1) ^ (i + j) * reference_minor (Mat3_rows m) i j"
    if "i < 3" "j < 3" for i j
    using less_3_cases [OF that(1)] less_3_cases [OF that(2)]
    by (auto simp add: Mat3_rows_eq entry_def Mat3_cofactor_def reference_minor_def
          submatrix_def delete_at_def reference_determinant_Suc_Suc_0)
  then show ?thesis
    by (simp add: Mat3_rows_eq)
qed

text \<open>
  At row 1, column 2 (coefficient \<open>wy\<close>) of a concrete matrix: the cofactor is 4 and the
  minor is -4.
\<close>

theorem cofactor_signed_minors_witness:
  "(1::nat) < 3 \<and> (2::nat) < 3
   \<and> wy3 (Mat3_cofactor \<lparr>ux3 = 1, vx3 = 2, wx3 = 3, uy3 = 0, vy3 = 1, wy3 = 4,
                           uz3 = 5, vz3 = 6, wz3 = 0\<rparr>) = 4
   \<and> reference_minor (Mat3_rows \<lparr>ux3 = 1, vx3 = 2, wx3 = 3, uy3 = 0, vy3 = 1, wy3 = 4,
                                  uz3 = 5, vz3 = 6, wz3 = 0\<rparr>) 1 2 = - 4"
  using cofactor_signed_minors
          [of "\<lparr>ux3 = 1, vx3 = 2, wx3 = 3, uy3 = 0, vy3 = 1, wy3 = 4,
                uz3 = 5, vz3 = 6, wz3 = 0\<rparr>",
           THEN conjunct2, rule_format, of 1 2]
  by (simp add: Mat3_cofactor_def entry_def Mat3_rows_eq)

text \<open>
  C4. \<open>Mat2.determinant(m)\<close> is \<open>ux*vy - vx*uy\<close>, and \<open>Mat3.determinant(m)\<close> is
  \<open>ux*vy*wz + uy*vz*wx + uz*vx*wy - wx*vy*uz - wy*vz*ux - wz*vx*uy\<close>; both are the
  reference (Leibniz) determinant of the matrix in the stated row and column layout.
\<close>

theorem determinant_formulas:
  "Mat2_determinant m = ux2 m * vy2 m - vx2 m * uy2 m
   \<and> Mat2_determinant m = reference_determinant 2 (Mat2_rows m)
   \<and> Mat3_determinant n =
       ux3 n * vy3 n * wz3 n + uy3 n * vz3 n * wx3 n + uz3 n * vx3 n * wy3 n
       - wx3 n * vy3 n * uz3 n - wy3 n * vz3 n * ux3 n - wz3 n * vx3 n * uy3 n
   \<and> Mat3_determinant n = reference_determinant 3 (Mat3_rows n)"
  by (simp add: Mat2_determinant_def Mat3_determinant_def Mat2_rows_eq Mat3_rows_eq
        reference_determinant_2 reference_determinant_3)

theorem determinant_formulas_witness:
  "Mat2_determinant \<lparr>ux2 = 1, vx2 = 2, uy2 = 3, vy2 = 4\<rparr> = - 2
   \<and> reference_determinant 2 [[1, 2], [3, 4]] = - 2
   \<and> Mat3_determinant \<lparr>ux3 = 1, vx3 = 2, wx3 = 3, uy3 = 0, vy3 = 1, wy3 = 4,
                        uz3 = 5, vz3 = 6, wz3 = 0\<rparr> = 1
   \<and> reference_determinant 3 [[1, 2, 3], [0, 1, 4], [5, 6, 0]] = 1"
  using determinant_formulas
          [of "\<lparr>ux2 = 1, vx2 = 2, uy2 = 3, vy2 = 4\<rparr>"
              "\<lparr>ux3 = 1, vx3 = 2, wx3 = 3, uy3 = 0, vy3 = 1, wy3 = 4,
                uz3 = 5, vz3 = 6, wz3 = 0\<rparr>"]
  by (simp add: Mat2_rows_eq Mat3_rows_eq)

text \<open>
  C5. For every Matrix2 and every Matrix3, \<open>adjugate(m)\<close> is \<open>transpose(cofactor(m))\<close>,
  coefficient for coefficient.
\<close>

theorem adjugate_is_transpose_of_cofactor:
  "Mat2_adjugate m = Mat2_transpose (Mat2_cofactor m)
   \<and> Mat3_adjugate n = Mat3_transpose (Mat3_cofactor n)"
  by (simp add: Mat2_adjugate_def Mat2_transpose_def Mat2_cofactor_def
        Mat3_adjugate_def Mat3_transpose_def Mat3_cofactor_def)

text \<open>
  C6. \<open>Mat2.from\<close> on an array of at least 4 numbers reads them in row-major order
  (\<open>ux = a[0]\<close>, \<open>vx = a[1]\<close>, \<open>uy = a[2]\<close>, \<open>vy = a[3]\<close>) and raises InvalidInput on every
  shorter array; \<open>Mat3.from\<close> does the same with 9, the empty array included.
\<close>

theorem from_array:
  "(4 \<le> length a \<longrightarrow>
      Mat2_from (JArr a) v = Inr \<lparr>ux2 = a ! 0, vx2 = a ! 1, uy2 = a ! 2, vy2 = a ! 3\<rparr>)
   \<and> (length a < 4 \<longrightarrow> Mat2_from (JArr a) v = Inl InvalidInput)
   \<and> (9 \<le> length b \<longrightarrow>
      Mat3_from (JArr b) v' w' =
        Inr \<lparr>ux3 = b ! 0, vx3 = b ! 1, wx3 = b ! 2,
             uy3 = b ! 3, vy3 = b ! 4, wy3 = b ! 5,
             uz3 = b ! 6, vz3 = b ! 7, wz3 = b ! 8\<rparr>)
   \<and> (length b < 9 \<longrightarrow> Mat3_from (JArr b) v' w' = Inl InvalidInput)"
  by (simp add: Mat2_from_def Mat3_from_def Vec2_isVector2_def Vec3_isVector3_def)

theorem from_array_witness:
  "Mat2_from (JArr [1, 2, 3, 4]) Undefined = Inr \<lparr>ux2 = 1, vx2 = 2, uy2 = 3, vy2 = 4\<rparr>
   \<and> Mat2_from (JArr []) Undefined = Inl InvalidInput
   \<and> Mat2_from (JArr [1, 2, 3]) Undefined = Inl InvalidInput
   \<and> Mat3_from (JArr [1, 2, 3, 4, 5, 6, 7, 8, 9]) Undefined Undefined =
        Inr \<lparr>ux3 = 1, vx3 = 2, wx3 = 3, uy3 = 4, vy3 = 5, wy3 = 6,
             uz3 = 7, vz3 = 8, wz3 = 9\<rparr>
   \<and> Mat3_from (JArr []) Undefined Undefined = Inl InvalidInput
   \<and> Mat3_from (JArr [1, 2, 3, 4, 5, 6, 7, 8]) Undefined Undefined = Inl InvalidInput"
  using from_array [of "[1, 2, 3, 4]" Undefined "[1, 2, 3, 4, 5, 6, 7, 8, 9]" Undefined Undefined]
        from_array [of "[]" Undefined "[]" Undefined Undefined]
        from_array [of "[1, 2, 3]" Undefined "[1, 2, 3, 4, 5, 6, 7, 8]" Undefined Undefined]
  by simp




text \<open>
  C8. For every Matrix2 and every Matrix3, \<open>transpose(transpose(m))\<close> is \<open>m\<close>, coefficient
  for coefficient.
\<close>

theorem transpose_involution:
  "Mat2_transpose (Mat2_transpose m) = m \<and> Mat3_transpose (Mat3_transpose n) = n"
  by (simp add: Mat2_transpose_def Mat3_transpose_def)

text \<open>
  C9, as amended. \<open>mul\<close> asks the matrix predicate before the vector predicate: a second
  argument \<open>t\<close> that satisfies both gets the matrix product, and the matrix branch is
  taken exactly when \<open>t\<close> satisfies the matrix predicate. For every \<open>t\<close> other than
  \<open>null\<close> the scaling branch is taken exactly when \<open>t\<close> satisfies neither predicate. On
  \<open>null\<close> the matrix predicate raises a TypeError (\<open>typeof null\<close> is \<open>"object"\<close>, and
  \<open>'ux' in null\<close> raises), so \<open>mul\<close> raises and takes no branch.
\<close>

theorem mul_dispatch_order:
  "(satisfies Mat2_isMatrix2 t \<and> Vec2_isVector2 t \<longrightarrow>
      Mat2_mul m t = Inr (MatrixProduct2
        \<lparr>ux2 = Vec2_dot (Mat2_r1 m) (Mat2_c1 (as_Matrix2 t)),
         vx2 = Vec2_dot (Mat2_r1 m) (Mat2_c2 (as_Matrix2 t)),
         uy2 = Vec2_dot (Mat2_r2 m) (Mat2_c1 (as_Matrix2 t)),
         vy2 = Vec2_dot (Mat2_r2 m) (Mat2_c2 (as_Matrix2 t))\<rparr>))
   \<and> (matrix_branch2 (Mat2_mul m t) \<longleftrightarrow> satisfies Mat2_isMatrix2 t)
   \<and> (t \<noteq> JNull \<longrightarrow>
        (scalar_branch2 (Mat2_mul m t)
           \<longleftrightarrow> \<not> satisfies Mat2_isMatrix2 t \<and> \<not> Vec2_isVector2 t))
   \<and> Mat2_mul m JNull = Inl TypeError
   \<and> (satisfies Mat3_isMatrix3 t \<and> Vec3_isVector3 t \<longrightarrow>
      Mat3_mul n t = Inr (MatrixProduct3
        \<lparr>ux3 = Vec3_dot (Mat3_r1 n) (Mat3_c1 (as_Matrix3 t)),
         vx3 = Vec3_dot (Mat3_r1 n) (Mat3_c2 (as_Matrix3 t)),
         wx3 = Vec3_dot (Mat3_r1 n) (Mat3_c3 (as_Matrix3 t)),
         uy3 = Vec3_dot (Mat3_r2 n) (Mat3_c1 (as_Matrix3 t)),
         vy3 = Vec3_dot (Mat3_r2 n) (Mat3_c2 (as_Matrix3 t)),
         wy3 = Vec3_dot (Mat3_r2 n) (Mat3_c3 (as_Matrix3 t)),
         uz3 = Vec3_dot (Mat3_r3 n) (Mat3_c1 (as_Matrix3 t)),
         vz3 = Vec3_dot (Mat3_r3 n) (Mat3_c2 (as_Matrix3 t)),
         wz3 = Vec3_dot (Mat3_r3 n) (Mat3_c3 (as_Matrix3 t))\<rparr>))
   \<and> (matrix_branch3 (Mat3_mul n t) \<longleftrightarrow> satisfies Mat3_isMatrix3 t)
   \<and> (t \<noteq> JNull \<longrightarrow>
        (scalar_branch3 (Mat3_mul n t)
           \<longleftrightarrow> \<not> satisfies Mat3_isMatrix3 t \<and> \<not> Vec3_isVector3 t))
   \<and> Mat3_mul n JNull = Inl TypeError"
  by (cases t)
     (simp_all add: Mat2_mul_def Mat3_mul_def satisfies_def
        Mat2_isMatrix2_cases Mat3_isMatrix3_cases split: option.split)

text \<open>
  An object with the matrix fields and \<open>x\<close>, \<open>y\<close> (and \<open>z\<close>) is multiplied as a matrix;
  a number, \<open>undefined\<close> and an object with the field \<open>ux\<close> alone are scaled by; an
  object with \<open>x\<close> and \<open>y\<close> alone is neither.
\<close>

theorem mul_dispatch_order_witness:
  "satisfies Mat2_isMatrix2 (JObj [''ux'' \<mapsto> 1, ''vx'' \<mapsto> 0, ''uy'' \<mapsto> 0, ''vy'' \<mapsto> 1,
                                  ''x'' \<mapsto> 5, ''y'' \<mapsto> 6])
   \<and> Vec2_isVector2 (JObj [''ux'' \<mapsto> 1, ''vx'' \<mapsto> 0, ''uy'' \<mapsto> 0, ''vy'' \<mapsto> 1,
                           ''x'' \<mapsto> 5, ''y'' \<mapsto> 6])
   \<and> Mat2_mul \<lparr>ux2 = 1, vx2 = 2, uy2 = 3, vy2 = 4\<rparr>
        (JObj [''ux'' \<mapsto> 1, ''vx'' \<mapsto> 0, ''uy'' \<mapsto> 0, ''vy'' \<mapsto> 1, ''x'' \<mapsto> 5, ''y'' \<mapsto> 6])
       = Inr (MatrixProduct2 \<lparr>ux2 = 1, vx2 = 2, uy2 = 3, vy2 = 4\<rparr>)
   \<and> satisfies Mat3_isMatrix3 (JObj [''ux'' \<mapsto> 1, ''vx'' \<mapsto> 0, ''wx'' \<mapsto> 0,
                           ''uy'' \<mapsto> 0, ''vy'' \<mapsto> 1, ''wy'' \<mapsto> 0,
                           ''uz'' \<mapsto> 0, ''vz'' \<mapsto> 0, ''wz'' \<mapsto> 1,
                           ''x'' \<mapsto> 5, ''y'' \<mapsto> 6, ''z'' \<mapsto> 7])
   \<and> Vec3_isVector3 (JObj [''ux'' \<mapsto> 1, ''vx'' \<mapsto> 0, ''wx'' \<mapsto> 0,
                           ''uy'' \<mapsto> 0, ''vy'' \<mapsto> 1, ''wy'' \<mapsto> 0,
                           ''uz'' \<mapsto> 0, ''vz'' \<mapsto> 0, ''wz'' \<mapsto> 1,
                           ''x'' \<mapsto> 5, ''y'' \<mapsto> 6, ''z'' \<mapsto> 7])
   \<and> Mat3_mul \<lparr>ux3 = 1, vx3 = 2, wx3 = 3, uy3 = 0, vy3 = 1, wy3 = 4,
                uz3 = 5, vz3 = 6, wz3 = 0\<rparr>
        (JObj [''ux'' \<mapsto> 1, ''vx'' \<mapsto> 0, ''wx'' \<mapsto> 0,
               ''uy'' \<mapsto> 0, ''vy'' \<mapsto> 1, ''wy'' \<mapsto> 0,
               ''uz'' \<mapsto> 0, ''vz'' \<mapsto> 0, ''wz'' \<mapsto> 1,
               ''x'' \<mapsto> 5, ''y'' \<mapsto> 6, ''z'' \<mapsto> 7])
       = Inr (MatrixProduct3 \<lparr>ux3 = 1, vx3 = 2, wx3 = 3, uy3 = 0, vy3 = 1, wy3 = 4,
                               uz3 = 5, vz3 = 6, wz3 = 0\<rparr>)
   \<and> JNum 2 \<noteq> JNull
   \<and> scalar_branch2 (Mat2_mul \<lparr>ux2 = 1, vx2 = 2, uy2 = 3, vy2 = 4\<rparr> (JNum 2))
   \<and> JObj [''ux'' \<mapsto> 1] \<noteq> JNull
   \<and> scalar_branch2 (Mat2_mul \<lparr>ux2 = 1, vx2 = 2, uy2 = 3, vy2 = 4\<rparr> (JObj [''ux'' \<mapsto> 1]))
   \<and> scalar_branch3 (Mat3_mul \<lparr>ux3 = 1, vx3 = 2, wx3 = 3, uy3 = 0, vy3 = 1, wy3 = 4,
                                uz3 = 5, vz3 = 6, wz3 = 0\<rparr> (JObj [''ux'' \<mapsto> 1]))
   \<and> JUndefined \<noteq> JNull
   \<and> scalar_branch2 (Mat2_mul \<lparr>ux2 = 1, vx2 = 2, uy2 = 3, vy2 = 4\<rparr> JUndefined)
   \<and> JObj [''x'' \<mapsto> 5, ''y'' \<mapsto> 6] \<noteq> JNull
   \<and> \<not> scalar_branch2 (Mat2_mul \<lparr>ux2 = 1, vx2 = 2, uy2 = 3, vy2 = 4\<rparr>
                          (JObj [''x'' \<mapsto> 5, ''y'' \<mapsto> 6]))
   \<and> \<not> matrix_branch2 (Mat2_mul \<lparr>ux2 = 1, vx2 = 2, uy2 = 3, vy2 = 4\<rparr>
                          (JObj [''x'' \<mapsto> 5, ''y'' \<mapsto> 6]))"
  using mul_dispatch_order
          [of "JObj [''ux'' \<mapsto> 1, ''vx'' \<mapsto> 0, ''uy'' \<mapsto> 0, ''vy'' \<mapsto> 1, ''x'' \<mapsto> 5, ''y'' \<mapsto> 6]"
              "\<lparr>ux2 = 1, vx2 = 2, uy2 = 3, vy2 = 4\<rparr>"]
        mul_dispatch_order
          [of "JObj [''ux'' \<mapsto> 1, ''vx'' \<mapsto> 0, ''wx'' \<mapsto> 0,
                     ''uy'' \<mapsto> 0, ''vy'' \<mapsto> 1, ''wy'' \<mapsto> 0,
                     ''uz'' \<mapsto> 0, ''vz'' \<mapsto> 0, ''wz'' \<mapsto> 1,
                     ''x'' \<mapsto> 5, ''y'' \<mapsto> 6, ''z'' \<mapsto> 7]"
              _
              "\<lparr>ux3 = 1, vx3 = 2, wx3 = 3, uy3 = 0, vy3 = 1, wy3 = 4,
                uz3 = 5, vz3 = 6, wz3 = 0\<rparr>"]
        mul_dispatch_order
          [of "JNum 2" "\<lparr>ux2 = 1, vx2 = 2, uy2 = 3, vy2 = 4\<rparr>"]
        mul_dispatch_order
          [of "JObj [''ux'' \<mapsto> 1]" "\<lparr>ux2 = 1, vx2 = 2, uy2 = 3, vy2 = 4\<rparr>"
              "\<lparr>ux3 = 1, vx3 = 2, wx3 = 3, uy3 = 0, vy3 = 1, wy3 = 4,
                uz3 = 5, vz3 = 6, wz3 = 0\<rparr>"]
        mul_dispatch_order
          [of JUndefined "\<lparr>ux2 = 1, vx2 = 2, uy2 = 3, vy2 = 4\<rparr>"]
        mul_dispatch_order
          [of "JObj [''x'' \<mapsto> 5, ''y'' \<mapsto> 6]" "\<lparr>ux2 = 1, vx2 = 2, uy2 = 3, vy2 = 4\<rparr>"]
  by (simp add: satisfies_def Mat2_isMatrix2_cases Mat3_isMatrix3_cases
        Vec2_isVector2_def as_Matrix2_def Vec2_dot_def
        Mat2_r1_def Mat2_r2_def Mat2_c1_def Mat2_c2_def
        Vec3_isVector3_def as_Matrix3_def Vec3_dot_def
        Mat3_r1_def Mat3_r2_def Mat3_r3_def Mat3_c1_def Mat3_c2_def Mat3_c3_def)

text \<open>
  C9, as stated (the scaling branch is taken exactly when \<open>t\<close> satisfies neither
  predicate, whatever \<open>t\<close> is), fails at \<open>null\<close>: \<open>null\<close> satisfies neither predicate,
  and \<open>mul(Identity, null)\<close> raises a TypeError instead of scaling.
\<close>

theorem mul_scalar_branch_counterexample:
  "\<not> (scalar_branch2 (Mat2_mul Mat2_Identity JNull)
        \<longleftrightarrow> \<not> satisfies Mat2_isMatrix2 JNull \<and> \<not> Vec2_isVector2 JNull)
   \<and> Mat2_mul Mat2_Identity JNull = Inl TypeError
   \<and> \<not> (scalar_branch3 (Mat3_mul Mat3_Identity JNull)
        \<longleftrightarrow> \<not> satisfies Mat3_isMatrix3 JNull \<and> \<not> Vec3_isVector3 JNull)
   \<and> Mat3_mul Mat3_Identity JNull = Inl TypeError"
  by (simp add: satisfies_def Mat2_isMatrix2_def Mat3_isMatrix3_def Vec2_isVector2_def
        Vec3_isVector3_def Mat2_mul_def Mat3_mul_def)

text \<open>
  C10. \<open>Vec3.from\<close> puts the \<open>x\<close> argument, not zero, in every component that is left out
  or \<open>undefined\<close> (or \<open>null\<close>): \<open>from(s)\<close> is \<open>{x: s, y: s, z: s}\<close> and
  \<open>from(x, undefined, z)\<close> is \<open>{x: x, y: x, z: z}\<close>; a component that is given, 0
  included, is kept.
\<close>

theorem Vec3_from_defaults_to_x:
  "Vec3_from s Undefined Undefined = \<lparr>x3 = s, y3 = s, z3 = s\<rparr>
   \<and> Vec3_from x Undefined (Given z) = \<lparr>x3 = x, y3 = x, z3 = z\<rparr>
   \<and> Vec3_from x (Given y) Undefined = \<lparr>x3 = x, y3 = y, z3 = x\<rparr>
   \<and> Vec3_from x Null (Given z) = \<lparr>x3 = x, y3 = x, z3 = z\<rparr>
   \<and> Vec3_from x (Given y) Null = \<lparr>x3 = x, y3 = y, z3 = x\<rparr>
   \<and> Vec3_from x (Given y) (Given z) = \<lparr>x3 = x, y3 = y, z3 = z\<rparr>
   \<and> Vec3_from x (Given 0) (Given z) = \<lparr>x3 = x, y3 = 0, z3 = z\<rparr>
   \<and> Vec3_from x (Given y) (Given 0) = \<lparr>x3 = x, y3 = y, z3 = 0\<rparr>"
  by (simp add: Vec3_from_def)

end
